theory Spec2Isabelle
  imports Complex_Main "HOL-Library.Word" "HOL-Library.Multiset"
begin

section \<open>JavaScript values and strings\<close>

text \<open>
  A JavaScript string is a sequence of UTF-16 code units. The values below are the
  ones \<^verbatim>\<open>express.json()\<close> can put into a field of \<^verbatim>\<open>req.body\<close>, and the
  ones axios hands to the client as \<^verbatim>\<open>response.data\<close>; \<open>JUndefined\<close> is what
  destructuring gives for a field that is missing. A JSON number is kept as its
  rational value: the handlers only look at whether it is zero.
\<close>

type_synonym jstring = "16 word list"

datatype jsval =
    JUndefined
  | JNull
  | JBool bool
  | JNum rat
  | JStr jstring
  | JArr "jsval list"
  | JObj "(jstring \<times> jsval) list"

text \<open>ASCII text as code units, for writing string literals.\<close>

definition js :: "string \<Rightarrow> jstring" where
  "js s = map (\<lambda>c. of_nat (of_char c)) s"

text \<open>ToBoolean, as applied by \<^verbatim>\<open>!text\<close>.\<close>

fun to_boolean :: "jsval \<Rightarrow> bool" where
  "to_boolean JUndefined = False"
| "to_boolean JNull = False"
| "to_boolean (JBool b) = b"
| "to_boolean (JNum n) = (n \<noteq> 0)"
| "to_boolean (JStr s) = (s \<noteq> [])"
| "to_boolean (JArr xs) = True"
| "to_boolean (JObj kvs) = True"

text \<open>
  The code units that \<^verbatim>\<open>String.prototype.trim\<close> and \<^verbatim>\<open>parseInt\<close> skip:
  WhiteSpace (TAB, VT, FF, SP, NBSP, ZWNBSP and the space separators) and
  LineTerminator (LF, CR, LS, PS).
\<close>

definition is_white_space :: "16 word \<Rightarrow> bool" where
  "is_white_space c \<longleftrightarrow>
     c = 0x0009 \<or> c = 0x000A \<or> c = 0x000B \<or> c = 0x000C \<or> c = 0x000D \<or>
     c = 0x0020 \<or> c = 0x00A0 \<or> c = 0x1680 \<or> (0x2000 \<le> c \<and> c \<le> 0x200A) \<or>
     c = 0x2028 \<or> c = 0x2029 \<or> c = 0x202F \<or> c = 0x205F \<or> c = 0x3000 \<or>
     c = 0xFEFF"

definition trim :: "jstring \<Rightarrow> jstring" where
  "trim s = rev (dropWhile is_white_space (rev (dropWhile is_white_space s)))"

definition is_digit :: "16 word \<Rightarrow> bool" where
  "is_digit c \<longleftrightarrow> 0x30 \<le> c \<and> c \<le> 0x39"

definition digit_value :: "16 word \<Rightarrow> int" where
  "digit_value c = uint c - 48"

definition dec_value :: "jstring \<Rightarrow> int" where
  "dec_value z = foldl (\<lambda>a c. 10 * a + digit_value c) 0 z"

text \<open>
  \<^verbatim>\<open>parseInt(id, 10)\<close>: skip leading white space, read an optional sign, take the
  longest prefix of decimal digits; no digit gives NaN (\<open>None\<close>). The result is the
  mathematical integer. JavaScript rounds it to a double, which is the same number
  below \<open>2 ^ 53\<close>; from there on both the integer and the double are beyond the
  range of the column \<^verbatim>\<open>id\<close>, and the handlers do nothing with the number but
  hand it to a statement that compares it with that column.
\<close>

definition parseInt :: "jstring \<Rightarrow> int option" where
  "parseInt s =
     (let S = dropWhile is_white_space s;
          sign = (case S of c # cs \<Rightarrow> if c = 0x2D then - 1 else 1 | [] \<Rightarrow> (1::int));
          S1 = (case S of c # cs \<Rightarrow> if c = 0x2D \<or> c = 0x2B then cs else S | [] \<Rightarrow> []);
          Z = takeWhile is_digit S1
      in if Z = [] then None else Some (sign * dec_value Z))"

section \<open>The table \<^verbatim>\<open>todos\<close>\<close>

text \<open>
  \<^verbatim>\<open>createTableQuery\<close> declares the columns \<^verbatim>\<open>id SERIAL PRIMARY KEY\<close>,
  \<^verbatim>\<open>text VARCHAR(255) NOT NULL\<close> and \<^verbatim>\<open>completed BOOLEAN DEFAULT FALSE\<close>.
  \<^verbatim>\<open>SERIAL\<close> is a 32-bit signed integer fed by a sequence: the field \<open>id_int4\<close> holds
  the 32 bits and \<open>id_col\<close> reads them as the integer they stand for. The state of
  the store is the rows of the table and the last value handed out by the sequence.
\<close>

record todo =
  id_int4 :: "32 word"
  text_col :: jstring
  completed_col :: bool

definition id_col :: "todo \<Rightarrow> int" where
  "id_col r = sint (id_int4 r)"

text \<open>The integers a parameter compared with the column \<^verbatim>\<open>id\<close> may be.\<close>

definition int4_range :: "int \<Rightarrow> bool" where
  "int4_range i \<longleftrightarrow> - 2147483648 \<le> i \<and> i \<le> 2147483647"

record db =
  rows :: "todo list"
  last_value :: int

definition empty_db :: db where
  "empty_db = \<lparr>rows = [], last_value = 0\<rparr>"

datatype pg_error =
    QueryError
  | InvalidByteSequence
  | StringTooLong
  | IntegerOutOfRange
  | SequenceExhausted

text \<open>
  The driver sends a text parameter encoded as UTF-8 and the database holds
  characters (code points). \<open>code_points\<close> cuts a string into its characters, each
  one code unit or a surrogate pair; a surrogate without its partner cannot be
  encoded and goes over the wire as U+FFFD. Joined again, the characters are the
  string the driver hands back in \<^verbatim>\<open>result.rows\<close>.
\<close>

definition is_high_surrogate :: "16 word \<Rightarrow> bool" where
  "is_high_surrogate c \<longleftrightarrow> 0xD800 \<le> c \<and> c \<le> 0xDBFF"

definition is_low_surrogate :: "16 word \<Rightarrow> bool" where
  "is_low_surrogate c \<longleftrightarrow> 0xDC00 \<le> c \<and> c \<le> 0xDFFF"

definition lone :: "16 word \<Rightarrow> jstring" where
  "lone c = (if is_high_surrogate c \<or> is_low_surrogate c then [0xFFFD] else [c])"

fun code_points :: "jstring \<Rightarrow> jstring list" where
  "code_points [] = []"
| "code_points [c] = [lone c]"
| "code_points (c # d # cs) =
     (if is_high_surrogate c \<and> is_low_surrogate d then [c, d] # code_points cs
      else lone c # code_points (d # cs))"

text \<open>A string that the encoding leaves as it is: no surrogate stands alone.\<close>

definition well_formed :: "jstring \<Rightarrow> bool" where
  "well_formed t \<longleftrightarrow> concat (code_points t) = t"

text \<open>
  Storing into \<^verbatim>\<open>VARCHAR(255)\<close>: a value of more than 255 characters is an error,
  unless the excess is all spaces, in which case the value is cut to 255 characters.
\<close>

definition varchar255 :: "jstring list \<Rightarrow> pg_error + jstring list" where
  "varchar255 cps =
     (if length cps \<le> 255 then Inr cps
      else if list_all (\<lambda>p. p = [0x20]) (drop 255 cps) then Inr (take 255 cps)
      else Inl StringTooLong)"

record qresult =
  qrows :: "todo list"
  rowCount :: nat

datatype sql =
    SelectAll
  | Insert jstring
  | Update bool int
  | Delete int

text \<open>\<^verbatim>\<open>SELECT * FROM todos ORDER BY id ASC\<close>\<close>

definition sql_select_all :: "db \<Rightarrow> (pg_error + qresult) \<times> db" where
  "sql_select_all d =
     (let rs = sort_key id_col (rows d)
      in (Inr \<lparr>qrows = rs, rowCount = length rs\<rparr>, d))"

text \<open>
  \<^verbatim>\<open>INSERT INTO todos (text) VALUES ($1) RETURNING *\<close>. The database refuses a text
  with the character U+0000 and a text too long for the column; a refused statement
  leaves table and sequence as they were. Otherwise the id is the next value of the
  sequence, which ends at 2147483647, and \<^verbatim>\<open>completed\<close> takes its default.
\<close>

definition sql_insert :: "jstring \<Rightarrow> db \<Rightarrow> (pg_error + qresult) \<times> db" where
  "sql_insert t d =
     (let cps = code_points t
      in if [0] \<in> set cps then (Inl InvalidByteSequence, d)
         else
           (case varchar255 cps of
              Inl err \<Rightarrow> (Inl err, d)
            | Inr stored \<Rightarrow>
                if 2147483647 \<le> last_value d then (Inl SequenceExhausted, d)
                else
                  (let i = last_value d + 1;
                       r = \<lparr>id_int4 = word_of_int i, text_col = concat stored,
                            completed_col = False\<rparr>
                   in (Inr \<lparr>qrows = [r], rowCount = 1\<rparr>,
                       d\<lparr>last_value := i, rows := rows d @ [r]\<rparr>))))"

text \<open>
  \<^verbatim>\<open>UPDATE todos SET completed = $1 WHERE id = $2 RETURNING *\<close>. The parameter
  \<^verbatim>\<open>$2\<close> is read as a value of the column's type: an integer beyond 32 bits is
  refused.
\<close>

definition sql_update :: "bool \<Rightarrow> int \<Rightarrow> db \<Rightarrow> (pg_error + qresult) \<times> db" where
  "sql_update c i d =
     (if \<not> int4_range i then (Inl IntegerOutOfRange, d)
      else
        (let hit = map (\<lambda>r. r\<lparr>completed_col := c\<rparr>) (filter (\<lambda>r. id_col r = i) (rows d))
         in (Inr \<lparr>qrows = hit, rowCount = length hit\<rparr>,
             d\<lparr>rows := map (\<lambda>r. if id_col r = i then r\<lparr>completed_col := c\<rparr> else r) (rows d)\<rparr>)))"

text \<open>
  \<^verbatim>\<open>DELETE FROM todos WHERE id = $1\<close>, with the same reading of the parameter.
\<close>

definition sql_delete :: "int \<Rightarrow> db \<Rightarrow> (pg_error + qresult) \<times> db" where
  "sql_delete i d =
     (if \<not> int4_range i then (Inl IntegerOutOfRange, d)
      else
        (Inr \<lparr>qrows = [], rowCount = length (filter (\<lambda>r. id_col r = i) (rows d))\<rparr>,
         d\<lparr>rows := filter (\<lambda>r. id_col r \<noteq> i) (rows d)\<rparr>))"

fun exec :: "sql \<Rightarrow> db \<Rightarrow> (pg_error + qresult) \<times> db" where
  "exec SelectAll d = sql_select_all d"
| "exec (Insert t) d = sql_insert t d"
| "exec (Update c i) d = sql_update c i d"
| "exec (Delete i) d = sql_delete i d"

text \<open>
  What no request decides: whether \<^verbatim>\<open>pool.connect()\<close> resolves, and whether the
  connection carries the statement to the database and its result back. When it
  does not, the promise of \<^verbatim>\<open>client.query\<close> is rejected and the table is as it was.
\<close>

record env =
  connect_ok :: bool
  query_ok :: bool

definition healthy :: env where
  "healthy = \<lparr>connect_ok = True, query_ok = True\<rparr>"

definition client_query :: "env \<Rightarrow> sql \<Rightarrow> db \<Rightarrow> (pg_error + qresult) \<times> db" where
  "client_query e q d = (if query_ok e then exec q d else (Inl QueryError, d))"

section \<open>The API service (\<^verbatim>\<open>server.js\<close>)\<close>

text \<open>
  The texts of the error and acknowledgement payloads, by what they say:
  \<open>EmptyText\<close> "todo text cannot be empty", \<open>CompletedNotBoolean\<close> "completed status
  must be boolean", \<open>InvalidId\<close> "invalid todo ID", \<open>NotFound\<close> "todo not found",
  \<open>InternalError\<close> "internal server error", \<open>Deleted\<close> "todo deleted".
\<close>

datatype error_text = EmptyText | CompletedNotBoolean | InvalidId | NotFound | InternalError

datatype message_text = Deleted

datatype payload =
    ErrorBody error_text
  | MessageBody message_text
  | TodoBody todo
  | TodoListBody "todo list"
  | UndefinedBody

datatype js_exception = TypeError

text \<open>
  A handler either sends a response (status and JSON payload) or lets an exception
  escape: it is an \<^verbatim>\<open>async\<close> function, so the exception rejects its promise and no
  \<^verbatim>\<open>res\<close> method has been called.
\<close>

datatype outcome = Responded nat payload | Threw js_exception

datatype store_call = PoolConnect | ClientQuery sql | ClientRelease

record reply =
  response :: outcome
  db_after :: db
  calls :: "store_call list"

text \<open>\<^verbatim>\<open>result.rows[0]\<close>\<close>

definition first_row :: "qresult \<Rightarrow> payload" where
  "first_row res = (case qrows res of [] \<Rightarrow> UndefinedBody | r # _ \<Rightarrow> TodoBody r)"

text \<open>
  The part the four handlers share: \<^verbatim>\<open>pool.connect()\<close>, one \<^verbatim>\<open>client.query\<close>,
  \<^verbatim>\<open>client.release()\<close> in \<^verbatim>\<open>finally\<close>, and the \<^verbatim>\<open>catch\<close> that answers 500.
  \<open>k\<close> is what the handler does with the result of the query.
\<close>

definition with_client :: "env \<Rightarrow> sql \<Rightarrow> db \<Rightarrow> (qresult \<Rightarrow> outcome) \<Rightarrow> reply" where
  "with_client e q d k =
     (if \<not> connect_ok e then
        \<lparr>response = Responded 500 (ErrorBody InternalError), db_after = d,
         calls = [PoolConnect]\<rparr>
      else
        (case client_query e q d of
           (Inl err, d') \<Rightarrow>
             \<lparr>response = Responded 500 (ErrorBody InternalError), db_after = d',
              calls = [PoolConnect, ClientQuery q, ClientRelease]\<rparr>
         | (Inr res, d') \<Rightarrow>
             \<lparr>response = k res, db_after = d',
              calls = [PoolConnect, ClientQuery q, ClientRelease]\<rparr>))"

text \<open>\<^verbatim>\<open>app.get('/api/todos')\<close>\<close>

definition get_todos :: "env \<Rightarrow> db \<Rightarrow> reply" where
  "get_todos e d = with_client e SelectAll d (\<lambda>res. Responded 200 (TodoListBody (qrows res)))"

text \<open>
  \<^verbatim>\<open>app.post('/api/todos')\<close>; the argument is the field \<^verbatim>\<open>text\<close> of the body,
  which is taken to be the JSON value that \<^verbatim>\<open>express.json()\<close> parsed.
  The test \<^verbatim>\<open>!text || text.trim() === ''\<close> stands before the \<^verbatim>\<open>try\<close>: on a truthy
  value that is not a string, \<^verbatim>\<open>text.trim\<close> is not a function and the call throws.
\<close>

definition post_todos :: "jsval \<Rightarrow> env \<Rightarrow> db \<Rightarrow> reply" where
  "post_todos text e d =
     (if \<not> to_boolean text then
        \<lparr>response = Responded 400 (ErrorBody EmptyText), db_after = d, calls = []\<rparr>
      else
        (case text of
           JStr t \<Rightarrow>
             if trim t = [] then
               \<lparr>response = Responded 400 (ErrorBody EmptyText), db_after = d, calls = []\<rparr>
             else
               with_client e (Insert t) d (\<lambda>res. Responded 201 (first_row res))
         | _ \<Rightarrow> \<lparr>response = Threw TypeError, db_after = d, calls = []\<rparr>))"

text \<open>
  \<^verbatim>\<open>app.put('/api/todos/:id')\<close>; the arguments are the path parameter and the
  field \<^verbatim>\<open>completed\<close> of the body. Only a boolean passes
  \<^verbatim>\<open>typeof completed !== 'boolean'\<close>.
\<close>

definition put_todo :: "jstring \<Rightarrow> jsval \<Rightarrow> env \<Rightarrow> db \<Rightarrow> reply" where
  "put_todo ident completed e d =
     (case completed of
        JBool c \<Rightarrow>
          (case parseInt ident of
             None \<Rightarrow>
               \<lparr>response = Responded 400 (ErrorBody InvalidId), db_after = d, calls = []\<rparr>
           | Some todoId \<Rightarrow>
               with_client e (Update c todoId) d
                 (\<lambda>res. if length (qrows res) = 0 then Responded 404 (ErrorBody NotFound)
                         else Responded 200 (first_row res)))
      | _ \<Rightarrow>
          \<lparr>response = Responded 400 (ErrorBody CompletedNotBoolean), db_after = d,
           calls = []\<rparr>)"

text \<open>\<^verbatim>\<open>app.delete('/api/todos/:id')\<close>\<close>

definition delete_todo :: "jstring \<Rightarrow> env \<Rightarrow> db \<Rightarrow> reply" where
  "delete_todo ident e d =
     (case parseInt ident of
        None \<Rightarrow>
          \<lparr>response = Responded 400 (ErrorBody InvalidId), db_after = d, calls = []\<rparr>
      | Some todoId \<Rightarrow>
          with_client e (Delete todoId) d
            (\<lambda>res. if rowCount res = 0 then Responded 404 (ErrorBody NotFound)
                    else Responded 200 (MessageBody Deleted)))"

text \<open>Requests as they arrive at the service, and a run of the service over them.\<close>

datatype request =
    GetTodos
  | PostTodos jsval
  | PutTodo jstring jsval
  | DeleteTodo jstring

fun handle :: "env \<times> request \<Rightarrow> db \<Rightarrow> reply" where
  "handle (e, GetTodos) d = get_todos e d"
| "handle (e, PostTodos text) d = post_todos text e d"
| "handle (e, PutTodo ident completed) d = put_todo ident completed e d"
| "handle (e, DeleteTodo ident) d = delete_todo ident e d"

fun run :: "db \<Rightarrow> (env \<times> request) list \<Rightarrow> db" where
  "run d [] = d"
| "run d (r # rs) = run (db_after (handle r d)) rs"

text \<open>The status of a response, if one was sent.\<close>

fun status_code :: "outcome \<Rightarrow> nat option" where
  "status_code (Responded s p) = Some s"
| "status_code (Threw x) = None"

text \<open>How many requests of a run were answered 201 (Created).\<close>

fun created :: "db \<Rightarrow> (env \<times> request) list \<Rightarrow> nat" where
  "created d [] = 0"
| "created d (r # rs) =
     (if status_code (response (handle r d)) = Some 201 then 1 else 0)
       + created (db_after (handle r d)) rs"

fun is_delete :: "request \<Rightarrow> bool" where
  "is_delete (DeleteTodo ident) = True"
| "is_delete r = False"

text \<open>
  Two properties of the table used in the proofs: \<open>table_ok\<close>, the ids are distinct,
  none is beyond the last value of the sequence, and the sequence is within its
  bound; \<open>gone i\<close>, the id \<open>i\<close> has been handed out by the sequence and no row
  carries it.
\<close>

definition table_ok :: "db \<Rightarrow> bool" where
  "table_ok d \<longleftrightarrow>
     distinct (map id_col (rows d)) \<and> (\<forall>j\<in>set (map id_col (rows d)). j \<le> last_value d)
     \<and> 0 \<le> last_value d \<and> last_value d \<le> 2147483647"

definition gone :: "int \<Rightarrow> db \<Rightarrow> bool" where
  "gone i d \<longleftrightarrow> i \<le> last_value d \<and> i \<notin> set (map id_col (rows d))"

section \<open>The client (\<^verbatim>\<open>App.tsx\<close>)\<close>

text \<open>
  The state of the component. The type annotation \<^verbatim>\<open>Todo[]\<close> is erased at run
  time, so \<open>todos\<close> holds whatever array the server's answer was.
\<close>

datatype client_error = BadFormat | LoadFailed

record app_state =
  todos :: "jsval list"
  newTodoText :: jstring
  error :: "client_error option"

text \<open>
  What \<^verbatim>\<open>axios.get\<close> meets: no response at all, or a response with a status and
  a body. Its promise resolves for a status from 200 to 299 and rejects otherwise.
\<close>

datatype http_result = NetworkError | HttpResponse nat jsval

definition axios_get :: "http_result \<Rightarrow> jsval option" where
  "axios_get r =
     (case r of
        NetworkError \<Rightarrow> None
      | HttpResponse status data \<Rightarrow> if 200 \<le> status \<and> status < 300 then Some data else None)"

text \<open>
  \<^verbatim>\<open>fetchTodos\<close>: \<open>BadFormat\<close> is the message "the data from the server has the wrong
  format", \<open>LoadFailed\<close> is "cannot load the todos, check the backend or the network".
\<close>

definition fetchTodos :: "http_result \<Rightarrow> app_state \<Rightarrow> app_state" where
  "fetchTodos r s =
     (let s0 = s\<lparr>error := None\<rparr>
      in case axios_get r of
           Some data \<Rightarrow>
             (case data of
                JArr xs \<Rightarrow> s0\<lparr>todos := xs\<rparr>
              | _ \<Rightarrow> s0\<lparr>error := Some BadFormat, todos := []\<rparr>)
         | None \<Rightarrow> s0\<lparr>error := Some LoadFailed, todos := []\<rparr>)"

text \<open>
  The template literal \<^verbatim>\<open>`/api/todos/${id}`\<close> writes an integer in decimal, with a
  minus sign when it is negative. (From \<open>10 ^ 21\<close> on JavaScript writes an exponent;
  the ids of the table are 32-bit integers.)
\<close>

fun digits :: "nat \<Rightarrow> jstring" where
  "digits n = (if n < 10 then [of_nat (48 + n)] else digits (n div 10) @ [of_nat (48 + n mod 10)])"

declare digits.simps [simp del]

definition number_to_string :: "int \<Rightarrow> jstring" where
  "number_to_string i = (if i < 0 then 0x2D # digits (nat (- i)) else digits (nat i))"

text \<open>
  The request that \<^verbatim>\<open>toggleComplete(id, currentStatus)\<close> sends:
  \<^verbatim>\<open>axios.put(`/api/todos/${id}`, { completed: !currentStatus })\<close>.
\<close>

definition toggleComplete_request :: "int \<Rightarrow> bool \<Rightarrow> request" where
  "toggleComplete_request i currentStatus = PutTodo (number_to_string i) (JBool (\<not> currentStatus))"

section \<open>Basic facts about the model\<close>

lemmas js_eval = js_def parseInt_def is_white_space_def is_digit_def dec_value_def digit_value_def

lemma dropWhile_all: "(\<forall>x\<in>set (dropWhile P xs). P x) \<longleftrightarrow> (\<forall>x\<in>set xs. P x)"
  by (induction xs) auto

lemma trim_empty_iff: "trim t = [] \<longleftrightarrow> (\<forall>c\<in>set t. is_white_space c)"
  by (simp add: trim_def dropWhile_eq_Nil_conv dropWhile_all)

lemma find_filter_Nil: "(filter P xs = []) \<longleftrightarrow> (find P xs = None)"
  by (induction xs) auto

lemma find_filter_Cons: "find P xs = Some r \<Longrightarrow> \<exists>ys. filter P xs = r # ys"
  by (induction xs) (auto split: if_splits)

lemma digit_not_space: "is_digit c \<Longrightarrow> \<not> is_white_space c"
  by (auto simp: is_digit_def is_white_space_def word_le_nat_alt)

lemma digit_not_sign: "is_digit c \<Longrightarrow> c \<noteq> 0x2D \<and> c \<noteq> 0x2B"
  by (auto simp: is_digit_def)

lemma parseInt_digits:
  assumes "z \<noteq> []" "\<forall>c\<in>set z. is_digit c" "takeWhile is_digit rest = []"
  shows "parseInt (z @ rest) = Some (dec_value z)"
proof -
  from assms(1) obtain c cs where z: "z = c # cs" by (cases z) auto
  with assms(2) have c: "is_digit c" and cs: "\<forall>x\<in>set cs. is_digit x" by auto
  have tw: "takeWhile is_digit (cs @ rest) = cs"
    using cs assms(3) by (simp add: takeWhile_append2)
  show ?thesis
    using c digit_not_space [OF c] digit_not_sign [OF c] tw
    by (simp add: parseInt_def z)
qed

lemma trim_Nil: "trim [] = []"
  by (simp add: trim_def)

text \<open>The id of a row is a 32-bit integer, and the 32 bits of an integer in that range read back as it.\<close>

lemma id_col_completed [simp]: "id_col (r\<lparr>completed_col := c\<rparr>) = id_col r"
  by (simp add: id_col_def)

lemma id_col_range: "int4_range (id_col r)"
  using sint_ge [of "id_int4 r"] sint_lt [of "id_int4 r"]
  by (simp add: id_col_def int4_range_def)

lemma sint_int4: "int4_range i \<Longrightarrow> sint (word_of_int i :: 32 word) = i"
  by (simp add: int4_range_def signed_of_int signed_take_bit_int_eq_self)

lemma find_id_range: "find (\<lambda>r. id_col r = i) xs = Some r \<Longrightarrow> int4_range i"
  using id_col_range by (auto simp: find_Some_iff)

lemma member_id_range: "i \<in> set (map id_col xs) \<Longrightarrow> int4_range i"
  using id_col_range by auto

text \<open>
  When the connection or the statement fails, the answer is the generic 500 and the
  table is as it was.
\<close>

lemma with_client_fault:
  "\<not> (connect_ok e \<and> query_ok e) \<Longrightarrow>
   response (with_client e q d k) = Responded 500 (ErrorBody InternalError)
   \<and> db_after (with_client e q d k) = d"
  by (auto simp: with_client_def client_query_def)

lemma get_todos_ok:
  "connect_ok e \<Longrightarrow> query_ok e \<Longrightarrow>
   get_todos e d =
     \<lparr>response = Responded 200 (TodoListBody (sort_key id_col (rows d))), db_after = d,
      calls = [PoolConnect, ClientQuery SelectAll, ClientRelease]\<rparr>"
  by (simp add: get_todos_def with_client_def client_query_def sql_select_all_def Let_def)

lemma delete_todo_ok:
  assumes "parseInt ident = Some i" "connect_ok e" "query_ok e" "int4_range i"
  shows "delete_todo ident e d =
     \<lparr>response = (if i \<in> set (map id_col (rows d)) then Responded 200 (MessageBody Deleted)
                   else Responded 404 (ErrorBody NotFound)),
      db_after = d\<lparr>rows := filter (\<lambda>r. id_col r \<noteq> i) (rows d)\<rparr>,
      calls = [PoolConnect, ClientQuery (Delete i), ClientRelease]\<rparr>"
proof -
  have "(filter (\<lambda>r. id_col r = i) (rows d) = []) \<longleftrightarrow> i \<notin> set (map id_col (rows d))"
    by (auto simp: filter_empty_conv)
  then show ?thesis using assms
    by (simp add: delete_todo_def with_client_def client_query_def sql_delete_def)
qed

text \<open>An identifier beyond 32 bits: the statement is refused and the answer is 500.\<close>

lemma delete_todo_out_of_range:
  assumes "parseInt ident = Some i" "\<not> int4_range i"
  shows "response (delete_todo ident e d) = Responded 500 (ErrorBody InternalError)"
    and "db_after (delete_todo ident e d) = d"
  using assms
  by (simp_all add: delete_todo_def with_client_def client_query_def sql_delete_def)

lemma put_todo_out_of_range:
  assumes "parseInt ident = Some i" "\<not> int4_range i"
  shows "response (put_todo ident (JBool c) e d) = Responded 500 (ErrorBody InternalError)"
    and "db_after (put_todo ident (JBool c) e d) = d"
  using assms
  by (simp_all add: put_todo_def with_client_def client_query_def sql_update_def)

section \<open>Identifiers in the path\<close>

lemma dec_value_snoc: "dec_value (xs @ [c]) = 10 * dec_value xs + digit_value c"
  by (simp add: dec_value_def)

lemma digit_char:
  assumes "d < 10"
  shows "is_digit (48 + of_nat d)" and "digit_value (48 + of_nat d) = int d"
proof -
  have "(48 + of_nat d :: 16 word) = of_nat (48 + d)" by simp
  moreover have "48 + d < 2 ^ LENGTH(16)" using assms by simp
  ultimately have u: "unat (48 + of_nat d :: 16 word) = 48 + d"
    by (rule of_nat_inverse [OF sym])
  show "is_digit (48 + of_nat d)"
    using assms unfolding is_digit_def word_le_nat_alt u by simp
  have "uint (48 + of_nat d :: 16 word) = int (48 + d)"
    using u by (metis uint_nat)
  then show "digit_value (48 + of_nat d) = int d"
    by (simp add: digit_value_def)
qed

lemma digits_nonempty: "digits n \<noteq> []"
  by (subst digits.simps) simp

lemma digits_all: "\<forall>c\<in>set (digits n). is_digit c"
proof (induction n rule: digits.induct)
  case (1 n)
  show ?case
  proof (cases "n < 10")
    case True
    then show ?thesis by (subst digits.simps) (simp add: digit_char)
  next
    case False
    then show ?thesis using 1 by (subst digits.simps) (simp add: digit_char)
  qed
qed

lemma dec_value_digits: "dec_value (digits n) = int n"
proof (induction n rule: digits.induct)
  case (1 n)
  show ?case
  proof (cases "n < 10")
    case True
    then show ?thesis
      using dec_value_snoc [of "[]" "of_nat (48 + n)"]
      by (subst digits.simps) (simp add: digit_char dec_value_def)
  next
    case False
    then have "dec_value (digits (n div 10)) = int (n div 10)" using 1 by simp
    moreover have "10 * int (n div 10) + int (n mod 10) = int n" by presburger
    ultimately show ?thesis using False
      by (subst digits.simps) (simp add: dec_value_snoc digit_char)
  qed
qed

lemma parseInt_number_to_string: "parseInt (number_to_string i) = Some i"
proof (cases "i < 0")
  case False
  then show ?thesis
    using parseInt_digits [of "digits (nat i)" "[]"]
    by (simp add: number_to_string_def digits_nonempty digits_all dec_value_digits)
next
  case True
  have tw: "takeWhile is_digit (digits (nat (- i))) = digits (nat (- i))"
    using digits_all by (simp add: takeWhile_eq_all_conv)
  show ?thesis using True
    by (simp add: number_to_string_def parseInt_def is_white_space_def tw digits_nonempty dec_value_digits)
qed

lemma put_todo_cong:
  "parseInt a = parseInt b \<Longrightarrow> put_todo a completed e d = put_todo b completed e d"
  by (cases completed) (simp_all add: put_todo_def)

lemma delete_todo_cong:
  "parseInt a = parseInt b \<Longrightarrow> delete_todo a e d = delete_todo b e d"
  by (simp add: delete_todo_def)

lemma put_todo_400_iff:
  "(\<exists>p. response (put_todo ident (JBool c) e d) = Responded 400 p) \<longleftrightarrow> parseInt ident = None"
  by (auto simp: put_todo_def with_client_def split: option.splits prod.splits sum.splits)

lemma delete_todo_400_iff:
  "(\<exists>p. response (delete_todo ident e d) = Responded 400 p) \<longleftrightarrow> parseInt ident = None"
  by (auto simp: delete_todo_def with_client_def split: option.splits prod.splits sum.splits)

text \<open>
  Claim C9. The update and the delete endpoint read the path identifier with
  \<^verbatim>\<open>parseInt\<close>: a string that starts with decimal digits is taken as the integer
  these digits write, whatever follows them (as in \<open>1.9\<close>, \<open>7abc\<close> or \<open>1\<close> followed
  by a space), and the request is handled exactly as the one whose path holds the
  digits alone. The answer 400 for the identifier is given exactly when \<^verbatim>\<open>parseInt\<close>
  yields NaN.
\<close>

theorem ident_prefix_accepted:
  "(z \<noteq> [] \<and> (\<forall>x\<in>set z. is_digit x) \<and> takeWhile is_digit rest = [] \<longrightarrow>
      parseInt (z @ rest) = Some (dec_value z)
      \<and> put_todo (z @ rest) completed e d = put_todo z completed e d
      \<and> delete_todo (z @ rest) e d = delete_todo z e d)
   \<and> ((\<exists>p. response (put_todo ident (JBool c) e d) = Responded 400 p) \<longleftrightarrow> parseInt ident = None)
   \<and> ((\<exists>p. response (delete_todo ident e d) = Responded 400 p) \<longleftrightarrow> parseInt ident = None)"
proof -
  have "parseInt (z @ rest) = Some (dec_value z) \<and> parseInt z = Some (dec_value z)"
    if "z \<noteq> []" "\<forall>x\<in>set z. is_digit x" "takeWhile is_digit rest = []"
    using that parseInt_digits [of z rest] parseInt_digits [of z "[]"] by simp
  then show ?thesis
    using put_todo_400_iff [of ident c e d] delete_todo_400_iff [of ident e d]
      put_todo_cong [of "z @ rest" z completed e d] delete_todo_cong [of "z @ rest" z e d]
    by presburger
qed

theorem ident_prefix_accepted_witness:
  "parseInt (js ''1.9'') = Some 1 \<and> parseInt (js ''7abc'') = Some 7 \<and> parseInt (js ''1 '') = Some 1
   \<and> put_todo (js ''7abc'') (JBool True) healthy empty_db = put_todo (js ''7'') (JBool True) healthy empty_db
   \<and> delete_todo (js ''1.9'') healthy empty_db = delete_todo (js ''1'') healthy empty_db
   \<and> response (delete_todo (js ''1 '') healthy empty_db) = Responded 404 (ErrorBody NotFound)
   \<and> response (delete_todo (js ''x1'') healthy empty_db) = Responded 400 (ErrorBody InvalidId)"
  using ident_prefix_accepted [of "js ''1''" "js ''.9''" "JBool True" healthy empty_db "js ''x1''" True]
    ident_prefix_accepted [of "js ''7''" "js ''abc''" "JBool True" healthy empty_db "js ''1 ''" True]
    ident_prefix_accepted [of "js ''1''" "js '' ''" "JBool True" healthy empty_db "js ''1 ''" True]
  by (simp add: js_eval delete_todo_def with_client_def client_query_def sql_delete_def
        int4_range_def healthy_def empty_db_def)

section \<open>Update of the completion flag\<close>

lemma put_todo_rows:
  "parseInt ident = Some i \<Longrightarrow> int4_range i \<Longrightarrow> connect_ok e \<Longrightarrow> query_ok e \<Longrightarrow>
   db_after (put_todo ident (JBool c) e d) =
     d\<lparr>rows := map (\<lambda>r. if id_col r = i then r\<lparr>completed_col := c\<rparr> else r) (rows d)\<rparr>"
  by (simp add: put_todo_def with_client_def client_query_def sql_update_def)

lemma put_todo_found:
  assumes "parseInt ident = Some i" "connect_ok e" "query_ok e"
    "find (\<lambda>r. id_col r = i) (rows d) = Some r"
  shows "response (put_todo ident (JBool c) e d) = Responded 200 (TodoBody (r\<lparr>completed_col := c\<rparr>))"
proof -
  from assms(4) obtain ys where "filter (\<lambda>r. id_col r = i) (rows d) = r # ys"
    using find_filter_Cons by fastforce
  then show ?thesis using assms(1-3) find_id_range [OF assms(4)]
    by (simp add: put_todo_def with_client_def client_query_def sql_update_def first_row_def)
qed

lemma put_todo_missing:
  assumes "parseInt ident = Some i" "int4_range i" "connect_ok e" "query_ok e"
    "find (\<lambda>r. id_col r = i) (rows d) = None"
  shows "response (put_todo ident (JBool c) e d) = Responded 404 (ErrorBody NotFound)"
    and "db_after (put_todo ident (JBool c) e d) = d"
proof -
  from assms(5) have f: "filter (\<lambda>r. id_col r = i) (rows d) = []"
    by (simp add: find_filter_Nil)
  then show "response (put_todo ident (JBool c) e d) = Responded 404 (ErrorBody NotFound)"
    using assms(1-4)
    by (simp add: put_todo_def with_client_def client_query_def sql_update_def)
  from f have "\<forall>r\<in>set (rows d). id_col r \<noteq> i"
    by (simp add: filter_empty_conv)
  then have "map (\<lambda>r. if id_col r = i then r\<lparr>completed_col := c\<rparr> else r) (rows d) = rows d"
    by (simp add: map_idI)
  then show "db_after (put_todo ident (JBool c) e d) = d"
    using put_todo_rows [OF assms(1-4), of c d] by simp
qed

lemma put_todo_bad_completed:
  "\<forall>c. completed \<noteq> JBool c \<Longrightarrow>
   put_todo ident completed e d =
     \<lparr>response = Responded 400 (ErrorBody CompletedNotBoolean), db_after = d, calls = []\<rparr>"
  by (cases completed) (auto simp: put_todo_def)

lemma put_todo_bad_ident:
  "parseInt ident = None \<Longrightarrow>
   \<exists>m. put_todo ident completed e d =
     \<lparr>response = Responded 400 (ErrorBody m), db_after = d, calls = []\<rparr>"
  by (cases completed) (simp_all add: put_todo_def)

text \<open>
  Claim C6 (amended). For every update request: an identifier that \<^verbatim>\<open>parseInt\<close>
  does not read as an integer is answered 400, a \<open>completed\<close> field that is not a
  boolean is answered 400, and in both cases the store is not called and the table
  is as before. Otherwise, when the identifier is within the 32 bits of the column
  \<^verbatim>\<open>id\<close> and the store answers: if no row has the identifier, the response is 404
  with the error payload and the table is as before; if a row has it, the response
  is 200 with the updated row, and the table is the old one with \<open>completed\<close> set
  in the rows of that identifier. An identifier beyond 32 bits is answered 500 and
  changes nothing.
\<close>

theorem put_todo_contract:
  "(parseInt ident = None \<longrightarrow>
      (\<exists>m. put_todo ident completed e d =
         \<lparr>response = Responded 400 (ErrorBody m), db_after = d, calls = []\<rparr>))
   \<and> ((\<forall>c. completed \<noteq> JBool c) \<longrightarrow>
      put_todo ident completed e d =
         \<lparr>response = Responded 400 (ErrorBody CompletedNotBoolean), db_after = d, calls = []\<rparr>)
   \<and> (\<forall>i c. parseInt ident = Some i \<and> completed = JBool c \<and> int4_range i
            \<and> connect_ok e \<and> query_ok e \<longrightarrow>
        (case find (\<lambda>r. id_col r = i) (rows d) of
           None \<Rightarrow>
             response (put_todo ident completed e d) = Responded 404 (ErrorBody NotFound)
             \<and> db_after (put_todo ident completed e d) = d
         | Some r \<Rightarrow>
             response (put_todo ident completed e d) = Responded 200 (TodoBody (r\<lparr>completed_col := c\<rparr>))
             \<and> db_after (put_todo ident completed e d) =
                 d\<lparr>rows := map (\<lambda>x. if id_col x = i then x\<lparr>completed_col := c\<rparr> else x) (rows d)\<rparr>))
   \<and> (\<forall>i c. parseInt ident = Some i \<and> completed = JBool c \<and> \<not> int4_range i \<longrightarrow>
        response (put_todo ident completed e d) = Responded 500 (ErrorBody InternalError)
        \<and> db_after (put_todo ident completed e d) = d)"
  using put_todo_bad_ident [of ident completed e d] put_todo_bad_completed [of completed ident e d]
  by (auto split: option.splits
        simp: put_todo_found put_todo_missing put_todo_rows put_todo_out_of_range)

theorem put_todo_contract_witness:
  "(\<exists>m. response (put_todo (js ''abc'') (JBool True) healthy empty_db) = Responded 400 (ErrorBody m))
   \<and> response (put_todo (js ''1'') (JNum 1) healthy empty_db) = Responded 400 (ErrorBody CompletedNotBoolean)
   \<and> response (put_todo (js ''999'') (JBool True) healthy empty_db) = Responded 404 (ErrorBody NotFound)
   \<and> put_todo (js ''1'') (JBool True) healthy
        \<lparr>rows = [\<lparr>id_int4 = 1, text_col = js ''buy milk'', completed_col = False\<rparr>], last_value = 1\<rparr>
       = \<lparr>response = Responded 200
             (TodoBody \<lparr>id_int4 = 1, text_col = js ''buy milk'', completed_col = True\<rparr>),
          db_after = \<lparr>rows = [\<lparr>id_int4 = 1, text_col = js ''buy milk'', completed_col = True\<rparr>],
                      last_value = 1\<rparr>,
          calls = [PoolConnect, ClientQuery (Update True 1), ClientRelease]\<rparr>
   \<and> response (put_todo (js ''2147483648'') (JBool True) healthy empty_db)
       = Responded 500 (ErrorBody InternalError)"
  using put_todo_contract [of "js ''abc''" "JBool True" healthy empty_db]
    put_todo_contract [of "js ''1''" "JNum 1" healthy empty_db]
    put_todo_contract [of "js ''999''" "JBool True" healthy empty_db]
    put_todo_contract [of "js ''1''" "JBool True" healthy
        "\<lparr>rows = [\<lparr>id_int4 = 1, text_col = js ''buy milk'', completed_col = False\<rparr>], last_value = 1\<rparr>"]
    put_todo_contract [of "js ''2147483648''" "JBool True" healthy empty_db]
  by (auto simp: js_eval healthy_def empty_db_def int4_range_def id_col_def Let_def
        put_todo_def with_client_def client_query_def sql_update_def first_row_def)

text \<open>
  As the claim is stated it fails: the identifier \<open>2147483648\<close> is read by
  \<^verbatim>\<open>parseInt\<close>, the field is a boolean, no row has that id, the store is
  reachable, and the answer is 500, not 404.
\<close>

theorem put_todo_out_of_range_counterexample:
  "parseInt (js ''2147483648'') = Some 2147483648
   \<and> find (\<lambda>r. id_col r = 2147483648) (rows empty_db) = None
   \<and> connect_ok healthy \<and> query_ok healthy
   \<and> response (put_todo (js ''2147483648'') (JBool True) healthy empty_db)
       = Responded 500 (ErrorBody InternalError)"
  by (simp add: js_eval healthy_def empty_db_def int4_range_def
        put_todo_def with_client_def client_query_def sql_update_def)

text \<open>
  Claim C7. An update request changes nothing but the \<open>completed\<close> field of the rows
  whose id is the one in the path: the ids and the texts of all rows stay as they
  were, in the same order, every row with another id is unchanged, and the
  sequence is not advanced.
\<close>

theorem put_todo_frame:
  "last_value (db_after (put_todo ident completed e d)) = last_value d
   \<and> map id_col (rows (db_after (put_todo ident completed e d))) = map id_col (rows d)
   \<and> map text_col (rows (db_after (put_todo ident completed e d))) = map text_col (rows d)
   \<and> (\<forall>k < length (rows d). parseInt ident \<noteq> Some (id_col (rows d ! k)) \<longrightarrow>
         rows (db_after (put_todo ident completed e d)) ! k = rows d ! k)"
  by (cases completed; cases "parseInt ident")
     (auto simp: put_todo_def with_client_def client_query_def sql_update_def)

theorem put_todo_frame_witness:
  "rows (db_after (put_todo (js ''1'') (JBool True) healthy
        \<lparr>rows = [\<lparr>id_int4 = 1, text_col = js ''a'', completed_col = False\<rparr>,
                 \<lparr>id_int4 = 2, text_col = js ''b'', completed_col = False\<rparr>], last_value = 2\<rparr>)) ! 1
     = \<lparr>id_int4 = 2, text_col = js ''b'', completed_col = False\<rparr>"
  using put_todo_frame [of "js ''1''" "JBool True" healthy
        "\<lparr>rows = [\<lparr>id_int4 = 1, text_col = js ''a'', completed_col = False\<rparr>,
                 \<lparr>id_int4 = 2, text_col = js ''b'', completed_col = False\<rparr>], last_value = 2\<rparr>"]
  by (auto simp: js_eval id_col_def)

lemma find_map_update:
  "find (\<lambda>r. id_col r = i) (map (\<lambda>r. if id_col r = i then r\<lparr>completed_col := c\<rparr> else r) xs)
     = map_option (\<lambda>r. r\<lparr>completed_col := c\<rparr>) (find (\<lambda>r. id_col r = i) xs)"
  by (induction xs) auto

lemma find_unique:
  "distinct (map id_col xs) \<Longrightarrow> find (\<lambda>r. id_col r = i) xs = Some r \<Longrightarrow>
   x \<in> set xs \<Longrightarrow> id_col x = i \<Longrightarrow> x = r"
  by (induction xs) (auto split: if_splits)

lemma map_update_twice:
  assumes "distinct (map id_col xs)" "find (\<lambda>r. id_col r = i) xs = Some r"
  shows "map (\<lambda>x. if id_col x = i then x\<lparr>completed_col := completed_col r\<rparr> else x)
           (map (\<lambda>x. if id_col x = i then x\<lparr>completed_col := c\<rparr> else x) xs) = xs"
proof -
  have "\<And>x. x \<in> set xs \<Longrightarrow> id_col x = i \<Longrightarrow> x = r"
    using find_unique [OF assms] by blast
  then show ?thesis by (auto simp: map_idI comp_def intro!: map_idI)
qed

text \<open>
  Claim C3. For an existing id, with the store answering: the client's toggle sends
  the negation of the status it shows; after the first toggle the row has the
  negated status, after the second it is the original row again. The ids and texts
  of all rows are the same throughout, and where ids are unique the whole table is
  as it was.
\<close>

theorem toggle_twice_restores:
  assumes "find (\<lambda>x. id_col x = i) (rows d) = Some r"
    and "connect_ok e1" "query_ok e1" "connect_ok e2" "query_ok e2"
  shows "let rp1 = handle (e1, toggleComplete_request i (completed_col r)) d;
             rp2 = handle (e2, toggleComplete_request i (\<not> completed_col r)) (db_after rp1)
         in response rp1 = Responded 200 (TodoBody (r\<lparr>completed_col := \<not> completed_col r\<rparr>))
          \<and> find (\<lambda>x. id_col x = i) (rows (db_after rp1)) = Some (r\<lparr>completed_col := \<not> completed_col r\<rparr>)
          \<and> response rp2 = Responded 200 (TodoBody r)
          \<and> find (\<lambda>x. id_col x = i) (rows (db_after rp2)) = Some r
          \<and> map id_col (rows (db_after rp2)) = map id_col (rows d)
          \<and> map text_col (rows (db_after rp2)) = map text_col (rows d)
          \<and> (distinct (map id_col (rows d)) \<longrightarrow> rows (db_after rp2) = rows d)"
proof -
  let ?s = "number_to_string i"
  let ?c = "completed_col r"
  let ?d1 = "db_after (put_todo ?s (JBool (\<not> ?c)) e1 d)"
  let ?d2 = "db_after (put_todo ?s (JBool ?c) e2 ?d1)"
  have p: "parseInt ?s = Some i" by (rule parseInt_number_to_string)
  have ir: "int4_range i" by (rule find_id_range [OF assms(1)])
  have d1: "?d1 = d\<lparr>rows := map (\<lambda>x. if id_col x = i then x\<lparr>completed_col := \<not> ?c\<rparr> else x) (rows d)\<rparr>"
    using put_todo_rows [OF p ir assms(2,3)] .
  have f1: "find (\<lambda>x. id_col x = i) (rows ?d1) = Some (r\<lparr>completed_col := \<not> ?c\<rparr>)"
    by (simp add: d1 find_map_update assms(1))
  have r1: "response (put_todo ?s (JBool (\<not> ?c)) e1 d) = Responded 200 (TodoBody (r\<lparr>completed_col := \<not> ?c\<rparr>))"
    using put_todo_found [OF p assms(2,3,1)] .
  have r2: "response (put_todo ?s (JBool ?c) e2 ?d1) = Responded 200 (TodoBody r)"
    using put_todo_found [OF p assms(4,5) f1, of ?c] by simp
  have d2: "?d2 = ?d1\<lparr>rows := map (\<lambda>x. if id_col x = i then x\<lparr>completed_col := ?c\<rparr> else x) (rows ?d1)\<rparr>"
    using put_todo_rows [OF p ir assms(4,5)] .
  have f2: "find (\<lambda>x. id_col x = i) (rows ?d2) = Some r"
    by (subst d2) (simp add: find_map_update f1)
  have ids: "map id_col (rows ?d2) = map id_col (rows d)"
    by (subst d2, subst d1) (simp add: comp_def)
  have txts: "map text_col (rows ?d2) = map text_col (rows d)"
    by (subst d2, subst d1) (simp add: comp_def)
  have same: "rows ?d2 = rows d" if "distinct (map id_col (rows d))"
    using map_update_twice [OF that assms(1), of "\<not> ?c"]
    by (subst d2, subst d1) simp
  show ?thesis
    using r1 f1 r2 f2 ids txts same by (simp add: toggleComplete_request_def Let_def)
qed

theorem toggle_twice_restores_witness:
  "find (\<lambda>x. id_col x = 1)
      (rows \<lparr>rows = [\<lparr>id_int4 = 1, text_col = js ''buy milk'', completed_col = False\<rparr>], last_value = 1\<rparr>)
     = Some \<lparr>id_int4 = 1, text_col = js ''buy milk'', completed_col = False\<rparr>
   \<and> connect_ok healthy \<and> query_ok healthy
   \<and> response (handle (healthy, toggleComplete_request 1 True)
        (db_after (handle (healthy, toggleComplete_request 1 False)
           \<lparr>rows = [\<lparr>id_int4 = 1, text_col = js ''buy milk'', completed_col = False\<rparr>], last_value = 1\<rparr>)))
       = Responded 200 (TodoBody \<lparr>id_int4 = 1, text_col = js ''buy milk'', completed_col = False\<rparr>)
   \<and> rows (db_after (handle (healthy, toggleComplete_request 1 True)
        (db_after (handle (healthy, toggleComplete_request 1 False)
           \<lparr>rows = [\<lparr>id_int4 = 1, text_col = js ''buy milk'', completed_col = False\<rparr>], last_value = 1\<rparr>))))
       = [\<lparr>id_int4 = 1, text_col = js ''buy milk'', completed_col = False\<rparr>]"
  using toggle_twice_restores [of 1
      "\<lparr>rows = [\<lparr>id_int4 = 1, text_col = js ''buy milk'', completed_col = False\<rparr>], last_value = 1\<rparr>"
      "\<lparr>id_int4 = 1, text_col = js ''buy milk'', completed_col = False\<rparr>" healthy healthy]
  by (simp add: Let_def healthy_def id_col_def)

section \<open>Creation\<close>

text \<open>
  Claim C2. A create request whose \<open>text\<close> field is missing, empty or made of white
  space only is answered 400 with the error payload; the store is not called and
  the table is as before.
\<close>

theorem create_rejects_blank_text:
  assumes "v = JUndefined \<or> v = JStr [] \<or> (\<exists>t. v = JStr t \<and> (\<forall>c\<in>set t. is_white_space c))"
  shows "post_todos v e d =
           \<lparr>response = Responded 400 (ErrorBody EmptyText), db_after = d, calls = []\<rparr>"
  using assms by (auto simp: post_todos_def trim_empty_iff)

theorem create_rejects_blank_text_witness:
  "post_todos (JStr (js ''   '')) healthy empty_db =
     \<lparr>response = Responded 400 (ErrorBody EmptyText), db_after = empty_db, calls = []\<rparr>"
  using create_rejects_blank_text [of "JStr (js ''   '')" healthy empty_db]
  by (simp add: js_def is_white_space_def)

text \<open>
  Claim C10. On a \<open>text\<close> field that is truthy and not a string (a nonzero number,
  \<open>true\<close>, an array, an object) the validation throws a TypeError before the
  \<^verbatim>\<open>try\<close> block is entered: the handler sends no response, neither the 400 nor
  the 500, and does not call the store.
\<close>

theorem create_throws_on_truthy_non_string:
  assumes "to_boolean v" and "\<forall>t. v \<noteq> JStr t"
  shows "post_todos v e d = \<lparr>response = Threw TypeError, db_after = d, calls = []\<rparr>"
  using assms by (cases v) (simp_all add: post_todos_def)

theorem create_throws_on_truthy_non_string_witness:
  "response (post_todos (JNum 5) healthy empty_db) = Threw TypeError
   \<and> response (post_todos (JObj []) healthy empty_db) = Threw TypeError"
  using create_throws_on_truthy_non_string [of "JNum 5" healthy empty_db]
    create_throws_on_truthy_non_string [of "JObj []" healthy empty_db]
  by simp

section \<open>Runs of the service\<close>

lemma db_after_with_client:
  "db_after (with_client e q d k) = (if connect_ok e \<and> query_ok e then snd (exec q d) else d)"
  by (auto simp: with_client_def client_query_def split: prod.splits sum.splits)

lemma db_after_handle:
  "db_after (handle rq d) = d
   \<or> (\<exists>t. db_after (handle rq d) = snd (sql_insert t d))
   \<or> (\<exists>c i. db_after (handle rq d) = snd (sql_update c i d))
   \<or> (\<exists>i. db_after (handle rq d) = snd (sql_delete i d))"
proof (cases rq)
  case (Pair e r)
  show ?thesis
  proof (cases r)
    case GetTodos
    then show ?thesis using Pair
      by (simp add: get_todos_def db_after_with_client sql_select_all_def Let_def)
  next
    case (PostTodos v)
    then show ?thesis using Pair
      by (cases v) (auto simp: post_todos_def db_after_with_client)
  next
    case (PutTodo ident completed)
    then show ?thesis using Pair
      by (cases completed; cases "parseInt ident")
         (auto simp: put_todo_def db_after_with_client)
  next
    case (DeleteTodo ident)
    then show ?thesis using Pair
      by (cases "parseInt ident") (auto simp: delete_todo_def db_after_with_client)
  qed
qed

lemma sql_insert_snd:
  "snd (sql_insert t d) = d
   \<or> (\<exists>s. last_value d < 2147483647 \<and> snd (sql_insert t d) =
         d\<lparr>last_value := last_value d + 1,
           rows := rows d @ [\<lparr>id_int4 = word_of_int (last_value d + 1), text_col = s,
                              completed_col = False\<rparr>]\<rparr>)"
  by (cases "varchar255 (code_points t)") (auto simp: sql_insert_def Let_def)

lemma sql_update_snd:
  "last_value (snd (sql_update c i d)) = last_value d
   \<and> map id_col (rows (snd (sql_update c i d))) = map id_col (rows d)"
proof -
  have "map (id_col \<circ> (\<lambda>r. if id_col r = i then r\<lparr>completed_col := c\<rparr> else r)) xs = map id_col xs" for xs
    by (induction xs) auto
  then show ?thesis by (simp add: sql_update_def)
qed

lemma sql_delete_snd:
  "snd (sql_delete i d) = d
   \<or> snd (sql_delete i d) = d\<lparr>rows := filter (\<lambda>r. id_col r \<noteq> i) (rows d)\<rparr>"
  by (simp add: sql_delete_def)

lemma new_id:
  "0 \<le> n \<Longrightarrow> n < 2147483647 \<Longrightarrow>
   id_col \<lparr>id_int4 = word_of_int (n + 1), text_col = s, completed_col = c\<rparr> = n + 1"
proof -
  assume "0 \<le> n" "n < 2147483647"
  then have "int4_range (n + 1)" by (simp add: int4_range_def)
  then have "sint (word_of_int (n + 1) :: 32 word) = n + 1" by (rule sint_int4)
  then show ?thesis unfolding id_col_def todo.select_convs .
qed

lemma table_ok_insert: "table_ok d \<Longrightarrow> table_ok (snd (sql_insert t d))"
proof -
  assume w: "table_ok d"
  consider "snd (sql_insert t d) = d"
    | s where "last_value d < 2147483647" "snd (sql_insert t d) =
         d\<lparr>last_value := last_value d + 1,
           rows := rows d @ [\<lparr>id_int4 = word_of_int (last_value d + 1), text_col = s,
                              completed_col = False\<rparr>]\<rparr>"
    using sql_insert_snd [of t d] by blast
  then show ?thesis
  proof cases
    case 1
    then show ?thesis using w by simp
  next
    case 2
    have "id_col \<lparr>id_int4 = word_of_int (last_value d + 1), text_col = s, completed_col = False\<rparr>
            = last_value d + 1"
      using w 2(1) new_id [of "last_value d" s False] by (simp add: table_ok_def)
    then show ?thesis using w 2 by (fastforce simp: table_ok_def)
  qed
qed

lemma table_ok_update: "table_ok d \<Longrightarrow> table_ok (snd (sql_update c i d))"
proof -
  assume w: "table_ok d"
  let ?d = "snd (sql_update c i d)"
  have m: "map id_col (rows ?d) = map id_col (rows d)" and l: "last_value ?d = last_value d"
    using sql_update_snd [of c i d] by simp_all
  show "table_ok ?d" using w unfolding table_ok_def m l .
qed

lemma table_ok_delete: "table_ok d \<Longrightarrow> table_ok (snd (sql_delete i d))"
  using sql_delete_snd [of i d] by (auto simp: table_ok_def distinct_map_filter)

lemma table_ok_handle: "table_ok d \<Longrightarrow> table_ok (db_after (handle rq d))"
  using db_after_handle [of rq d] table_ok_insert table_ok_update table_ok_delete by metis

lemma table_ok_run: "table_ok d \<Longrightarrow> table_ok (run d reqs)"
  by (induction reqs arbitrary: d) (simp_all add: table_ok_handle)

lemma table_ok_empty: "table_ok empty_db"
  by (simp add: table_ok_def empty_db_def)

lemma last_value_insert: "last_value d \<le> last_value (snd (sql_insert t d))"
  using sql_insert_snd [of t d] by auto

lemma last_value_handle: "last_value d \<le> last_value (db_after (handle rq d))"
proof -
  consider "db_after (handle rq d) = d"
    | t where "db_after (handle rq d) = snd (sql_insert t d)"
    | c i where "db_after (handle rq d) = snd (sql_update c i d)"
    | i where "db_after (handle rq d) = snd (sql_delete i d)"
    using db_after_handle [of rq d] by blast
  then show ?thesis
  proof cases
    case 4
    then show ?thesis using sql_delete_snd [of i d] by auto
  qed (simp_all add: last_value_insert sql_update_snd)
qed

lemma last_value_run: "last_value d \<le> last_value (run d reqs)"
proof (induction reqs arbitrary: d)
  case Nil
  show ?case by simp
next
  case (Cons rq reqs)
  have "last_value d \<le> last_value (db_after (handle rq d))" by (rule last_value_handle)
  also have "\<dots> \<le> last_value (run (db_after (handle rq d)) reqs)" by (rule Cons.IH)
  finally show ?case by simp
qed

lemma run_append: "run d (xs @ ys) = run (run d xs) ys"
  by (induction xs arbitrary: d) simp_all

lemma gone_handle: "table_ok d \<Longrightarrow> gone i d \<Longrightarrow> gone i (db_after (handle rq d))"
proof -
  assume w: "table_ok d" and g: "gone i d"
  consider "db_after (handle rq d) = d"
    | t where "db_after (handle rq d) = snd (sql_insert t d)"
    | c j where "db_after (handle rq d) = snd (sql_update c j d)"
    | j where "db_after (handle rq d) = snd (sql_delete j d)"
    using db_after_handle [of rq d] by blast
  then show ?thesis
  proof cases
    case 1
    then show ?thesis using g by simp
  next
    case 2
    consider "snd (sql_insert t d) = d"
      | s where "last_value d < 2147483647" "snd (sql_insert t d) =
           d\<lparr>last_value := last_value d + 1,
             rows := rows d @ [\<lparr>id_int4 = word_of_int (last_value d + 1), text_col = s,
                                completed_col = False\<rparr>]\<rparr>"
      using sql_insert_snd [of t d] by blast
    then show ?thesis
    proof cases
      case 1
      then show ?thesis using 2 g by simp
    next
      case 2
      have "id_col \<lparr>id_int4 = word_of_int (last_value d + 1), text_col = s, completed_col = False\<rparr>
              = last_value d + 1"
        using w 2(1) new_id [of "last_value d" s False] by (simp add: table_ok_def)
      then show ?thesis using \<open>db_after (handle rq d) = snd (sql_insert t d)\<close> 2 g
        by (auto simp: gone_def)
    qed
  next
    case 3
    have m: "map id_col (rows (snd (sql_update c j d))) = map id_col (rows d)"
      and l: "last_value (snd (sql_update c j d)) = last_value d"
      using sql_update_snd [of c j d] by simp_all
    show ?thesis using g unfolding 3 gone_def m l .
  next
    case 4
    then show ?thesis using g sql_delete_snd [of j d] by (auto simp: gone_def)
  qed
qed

lemma gone_run: "table_ok d \<Longrightarrow> gone i d \<Longrightarrow> gone i (run d reqs)"
  by (induction reqs arbitrary: d) (simp_all add: gone_handle table_ok_handle)

section \<open>Creation of a row\<close>

lemma varchar255_short: "length cps \<le> 255 \<Longrightarrow> varchar255 cps = Inr cps"
  by (simp add: varchar255_def)

lemma lone_not_nul: "c \<noteq> 0 \<Longrightarrow> [0] \<noteq> lone c"
  by (simp add: lone_def)

lemma code_points_no_nul: "0 \<notin> set t \<Longrightarrow> [0] \<notin> set (code_points t)"
  by (induction t rule: code_points.induct) (auto simp: lone_not_nul)

lemma post_todos_ok:
  assumes "trim t \<noteq> []" "well_formed t" "0 \<notin> set t" "length (code_points t) \<le> 255"
    "connect_ok e" "query_ok e" "last_value d < 2147483647"
  shows "post_todos (JStr t) e d =
     \<lparr>response = Responded 201
        (TodoBody \<lparr>id_int4 = word_of_int (last_value d + 1), text_col = t, completed_col = False\<rparr>),
      db_after = d\<lparr>last_value := last_value d + 1,
                    rows := rows d @ [\<lparr>id_int4 = word_of_int (last_value d + 1), text_col = t,
                                       completed_col = False\<rparr>]\<rparr>,
      calls = [PoolConnect, ClientQuery (Insert t), ClientRelease]\<rparr>"
proof -
  from assms(1) have "t \<noteq> []" using trim_Nil by auto
  moreover have "concat (code_points t) = t" using assms(2) by (simp add: well_formed_def)
  ultimately show ?thesis using assms code_points_no_nul [OF assms(3)]
    by (simp add: post_todos_def with_client_def client_query_def sql_insert_def Let_def
          varchar255_short first_row_def)
qed

text \<open>
  Claim C1 (amended). For every text \<open>t\<close> that is well-formed (no surrogate stands
  alone), holds no character U+0000, has at most 255 characters and a trimmed form
  that is not empty; with the store answering and the sequence of ids below its last
  value 2147483647; after any history of requests from the empty table: the create
  endpoint answers 201 with a row whose text is \<open>t\<close> untrimmed and whose
  \<open>completed\<close> is false, the row is appended to the table, and its id is the id
  of no row of any state the table has been in during that history (so of no
  existing and of no deleted row).
\<close>

theorem create_contract:
  assumes "trim t \<noteq> []" "well_formed t" "0 \<notin> set t" "length (code_points t) \<le> 255"
    and "connect_ok e" "query_ok e"
    and "last_value (run empty_db before) < 2147483647"
  shows "\<exists>r. response (post_todos (JStr t) e (run empty_db before)) = Responded 201 (TodoBody r)
           \<and> text_col r = t \<and> completed_col r = False
           \<and> rows (db_after (post_todos (JStr t) e (run empty_db before)))
               = rows (run empty_db before) @ [r]
           \<and> (\<forall>n. id_col r \<notin> set (map id_col (rows (run empty_db (take n before)))))"
proof -
  let ?d = "run empty_db before"
  let ?r = "\<lparr>id_int4 = word_of_int (last_value ?d + 1), text_col = t, completed_col = False\<rparr>"
  have ok: "table_ok ?d" by (rule table_ok_run [OF table_ok_empty])
  have idr: "id_col ?r = last_value ?d + 1"
    using ok assms(7) new_id [of "last_value ?d" t False] by (simp add: table_ok_def)
  have fresh: "last_value ?d + 1 \<notin> set (map id_col (rows (run empty_db (take n before))))" for n
  proof -
    let ?dn = "run empty_db (take n before)"
    have "?d = run ?dn (drop n before)"
      using run_append [of empty_db "take n before" "drop n before"] by simp
    then have "last_value ?dn \<le> last_value ?d"
      using last_value_run [of ?dn "drop n before"] by simp
    moreover have "table_ok ?dn" by (rule table_ok_run [OF table_ok_empty])
    ultimately show ?thesis unfolding table_ok_def by fastforce
  qed
  have "\<forall>n. id_col ?r \<notin> set (map id_col (rows (run empty_db (take n before))))"
    unfolding idr using fresh by blast
  then show ?thesis
    using post_todos_ok [OF assms, of ] by (intro exI [of _ ?r]) simp
qed

theorem create_contract_witness:
  "trim (js ''buy milk'') \<noteq> [] \<and> well_formed (js ''buy milk'') \<and> 0 \<notin> set (js ''buy milk'')
   \<and> length (code_points (js ''buy milk'')) \<le> 255
   \<and> connect_ok healthy \<and> query_ok healthy
   \<and> last_value (run empty_db [(healthy, PostTodos (JStr (js ''walk''))),
                                 (healthy, DeleteTodo (js ''1''))]) < 2147483647
   \<and> response (post_todos (JStr (js ''buy milk'')) healthy
         (run empty_db [(healthy, PostTodos (JStr (js ''walk''))), (healthy, DeleteTodo (js ''1''))]))
       = Responded 201 (TodoBody \<lparr>id_int4 = 2, text_col = js ''buy milk'', completed_col = False\<rparr>)
   \<and> 2 \<notin> set (map id_col (rows (run empty_db
         (take 1 [(healthy, PostTodos (JStr (js ''walk''))), (healthy, DeleteTodo (js ''1''))]))))"
proof -
  let ?before = "[(healthy, PostTodos (JStr (js ''walk''))), (healthy, DeleteTodo (js ''1''))]"
  have h: "trim (js ''buy milk'') \<noteq> []" "well_formed (js ''buy milk'')"
    "0 \<notin> set (js ''buy milk'')" "length (code_points (js ''buy milk'')) \<le> 255"
    "connect_ok healthy" "query_ok healthy"
    "last_value (run empty_db ?before) < 2147483647"
    by code_simp+
  have ev: "response (post_todos (JStr (js ''buy milk'')) healthy (run empty_db ?before))
       = Responded 201 (TodoBody \<lparr>id_int4 = 2, text_col = js ''buy milk'', completed_col = False\<rparr>)"
    by code_simp
  obtain r where "response (post_todos (JStr (js ''buy milk'')) healthy (run empty_db ?before))
       = Responded 201 (TodoBody r)"
    and "\<forall>n. id_col r \<notin> set (map id_col (rows (run empty_db (take n ?before))))"
    using create_contract [OF h, of ] by blast
  then have "id_col \<lparr>id_int4 = 2, text_col = js ''buy milk'', completed_col = False\<rparr>
      \<notin> set (map id_col (rows (run empty_db (take 1 ?before))))"
    using ev by (metis outcome.inject(1) payload.inject(3))
  then have "2 \<notin> set (map id_col (rows (run empty_db (take 1 ?before))))"
    by (simp add: id_col_def)
  then show ?thesis using h ev by simp
qed

text \<open>
  As the claim is stated it fails, in each of these ways. A text of 256 letters
  \<open>a\<close> passes the validation and is refused by the column \<^verbatim>\<open>VARCHAR(255)\<close>: the
  answer is 500. The letter \<open>a\<close> followed by 255 spaces is stored cut to 255
  characters: the answer is 201, with a text that is not the one sent. A high
  surrogate alone is stored and answered as U+FFFD. A text with the character
  U+0000 is refused: 500. And when the sequence has handed out its last value, a
  create is answered 500.
\<close>

lemma long_text_refused:
  "trim (replicate 256 0x61) \<noteq> []"
  "response (post_todos (JStr (replicate 256 0x61)) healthy empty_db)
     = Responded 500 (ErrorBody InternalError)"
  by code_simp+

lemma padded_text_cut:
  "trim (0x61 # replicate 255 0x20) \<noteq> []"
  "response (post_todos (JStr (0x61 # replicate 255 0x20)) healthy empty_db)
     = Responded 201 (TodoBody \<lparr>id_int4 = 1, text_col = 0x61 # replicate 254 0x20, completed_col = False\<rparr>)"
  "0x61 # replicate 254 0x20 \<noteq> (0x61 # replicate 255 0x20 :: jstring)"
  by code_simp+

lemma lone_surrogate_replaced:
  "trim [0xD800] \<noteq> []"
  "response (post_todos (JStr [0xD800]) healthy empty_db)
     = Responded 201 (TodoBody \<lparr>id_int4 = 1, text_col = [0xFFFD], completed_col = False\<rparr>)"
  by code_simp+

lemma nul_refused:
  "trim [0x61, 0, 0x62] \<noteq> []"
  "response (post_todos (JStr [0x61, 0, 0x62]) healthy empty_db)
     = Responded 500 (ErrorBody InternalError)"
  by code_simp+

lemma sequence_exhausted:
  "response (post_todos (JStr [0x61]) healthy \<lparr>rows = [], last_value = 2147483647\<rparr>)
     = Responded 500 (ErrorBody InternalError)"
  by code_simp

theorem create_long_text_counterexample:
  "trim (replicate 256 0x61) \<noteq> []
   \<and> response (post_todos (JStr (replicate 256 0x61)) healthy empty_db)
       = Responded 500 (ErrorBody InternalError)
   \<and> trim (0x61 # replicate 255 0x20) \<noteq> []
   \<and> response (post_todos (JStr (0x61 # replicate 255 0x20)) healthy empty_db)
       = Responded 201 (TodoBody \<lparr>id_int4 = 1, text_col = 0x61 # replicate 254 0x20, completed_col = False\<rparr>)
   \<and> 0x61 # replicate 254 0x20 \<noteq> (0x61 # replicate 255 0x20 :: jstring)
   \<and> trim [0xD800] \<noteq> []
   \<and> response (post_todos (JStr [0xD800]) healthy empty_db)
       = Responded 201 (TodoBody \<lparr>id_int4 = 1, text_col = [0xFFFD], completed_col = False\<rparr>)
   \<and> trim [0x61, 0, 0x62] \<noteq> []
   \<and> response (post_todos (JStr [0x61, 0, 0x62]) healthy empty_db)
       = Responded 500 (ErrorBody InternalError)
   \<and> response (post_todos (JStr [0x61]) healthy \<lparr>rows = [], last_value = 2147483647\<rparr>)
       = Responded 500 (ErrorBody InternalError)"
  by (intro conjI)
     (rule long_text_refused padded_text_cut lone_surrogate_replaced nul_refused
        sequence_exhausted)+

text \<open>
  Characters, not code units, are counted: 128 characters beyond the Basic
  Multilingual Plane, two code units each, are stored as they are.
\<close>

lemma create_astral_text:
  "length (concat (replicate 128 [0xD83D, 0xDE00 :: 16 word])) = 256
   \<and> response (post_todos (JStr (concat (replicate 128 [0xD83D, 0xDE00]))) healthy empty_db)
       = Responded 201 (TodoBody \<lparr>id_int4 = 1, text_col = concat (replicate 128 [0xD83D, 0xDE00]),
                                  completed_col = False\<rparr>)"
  by code_simp

text \<open>A refused create leaves table and sequence as they were.\<close>

lemma create_refused_keeps_sequence:
  "db_after (post_todos (JStr (replicate 256 0x61)) healthy empty_db) = empty_db"
  by code_simp

section \<open>Deletion\<close>

lemma put_todo_None_404:
  assumes "parseInt ident = Some i" "int4_range i" "connect_ok e" "query_ok e"
    "i \<notin> set (map id_col (rows d))"
  shows "response (put_todo ident (JBool c) e d) = Responded 404 (ErrorBody NotFound)"
proof -
  have "filter (\<lambda>r. id_col r = i) (rows d) = []"
    using assms(5) by (auto simp: filter_empty_conv)
  then show ?thesis using assms(1-4)
    by (simp add: put_todo_def with_client_def client_query_def sql_update_def)
qed

text \<open>
  Claim C4 (amended). With the store answering, for an identifier within the 32
  bits of the column \<^verbatim>\<open>id\<close>: deleting an id that no row has is answered 404 and
  leaves the table as it was; deleting an id that a row has is answered 200 with the
  acknowledgement and removes the rows with that id. When the table was reached
  from the empty one by any requests, then after any further requests no row has
  that id, so a list does not contain it and an update or a delete of it is
  answered 404. An identifier beyond 32 bits is answered 500 and changes nothing.
\<close>

theorem delete_contract:
  "(parseInt ident = Some i \<and> int4_range i \<and> connect_ok e \<and> query_ok e \<longrightarrow>
      (i \<notin> set (map id_col (rows d)) \<longrightarrow>
         response (delete_todo ident e d) = Responded 404 (ErrorBody NotFound)
         \<and> db_after (delete_todo ident e d) = d)
      \<and> (i \<in> set (map id_col (rows d)) \<longrightarrow>
         response (delete_todo ident e d) = Responded 200 (MessageBody Deleted)
         \<and> rows (db_after (delete_todo ident e d)) = filter (\<lambda>r. id_col r \<noteq> i) (rows d)
         \<and> i \<notin> set (map id_col (rows (db_after (delete_todo ident e d))))))
   \<and> (parseInt ident = Some i \<and> connect_ok e \<and> query_ok e
        \<and> i \<in> set (map id_col (rows (run empty_db before))) \<longrightarrow>
      (\<forall>later e' ident' c.
            i \<notin> set (map id_col (rows (run (db_after (delete_todo ident e (run empty_db before))) later)))
            \<and> (connect_ok e' \<and> query_ok e' \<and> parseInt ident' = Some i \<longrightarrow>
                 (\<exists>xs. response (get_todos e' (run (db_after (delete_todo ident e (run empty_db before))) later))
                          = Responded 200 (TodoListBody xs)
                       \<and> i \<notin> set (map id_col xs))
                 \<and> response (put_todo ident' (JBool c) e'
                       (run (db_after (delete_todo ident e (run empty_db before))) later))
                     = Responded 404 (ErrorBody NotFound)
                 \<and> response (delete_todo ident' e'
                       (run (db_after (delete_todo ident e (run empty_db before))) later))
                     = Responded 404 (ErrorBody NotFound))))
   \<and> (parseInt ident = Some i \<and> \<not> int4_range i \<longrightarrow>
        response (delete_todo ident e d) = Responded 500 (ErrorBody InternalError)
        \<and> db_after (delete_todo ident e d) = d)"
proof (intro conjI impI)
  assume a: "parseInt ident = Some i \<and> int4_range i \<and> connect_ok e \<and> query_ok e"
    and n: "i \<notin> set (map id_col (rows d))"
  then have "filter (\<lambda>r. id_col r \<noteq> i) (rows d) = rows d"
    by (auto simp: filter_id_conv)
  then show "response (delete_todo ident e d) = Responded 404 (ErrorBody NotFound)"
    and "db_after (delete_todo ident e d) = d"
    using a n by (simp_all add: delete_todo_ok)
next
  assume a: "parseInt ident = Some i \<and> int4_range i \<and> connect_ok e \<and> query_ok e"
    and m: "i \<in> set (map id_col (rows d))"
  show "response (delete_todo ident e d) = Responded 200 (MessageBody Deleted)"
    using a m by (simp add: delete_todo_ok)
  show "rows (db_after (delete_todo ident e d)) = filter (\<lambda>r. id_col r \<noteq> i) (rows d)"
    using a by (simp add: delete_todo_ok)
  then show "i \<notin> set (map id_col (rows (db_after (delete_todo ident e d))))"
    by auto
next
  let ?d = "run empty_db before"
  let ?d1 = "db_after (delete_todo ident e ?d)"
  assume a: "parseInt ident = Some i \<and> connect_ok e \<and> query_ok e \<and> i \<in> set (map id_col (rows ?d))"
  have ir: "int4_range i" using a member_id_range by blast
  have ok: "table_ok ?d" by (rule table_ok_run [OF table_ok_empty])
  then have "i \<le> last_value ?d" using a unfolding table_ok_def by blast
  moreover have d1: "?d1 = ?d\<lparr>rows := filter (\<lambda>r. id_col r \<noteq> i) (rows ?d)\<rparr>"
    using a ir by (simp add: delete_todo_ok)
  ultimately have g: "gone i ?d1" by (auto simp: gone_def)
  have ok1: "table_ok ?d1"
    using table_ok_handle [OF ok, of "(e, DeleteTodo ident)"] by simp
  show "\<forall>later e' ident' c.
            i \<notin> set (map id_col (rows (run ?d1 later)))
            \<and> (connect_ok e' \<and> query_ok e' \<and> parseInt ident' = Some i \<longrightarrow>
                 (\<exists>xs. response (get_todos e' (run ?d1 later)) = Responded 200 (TodoListBody xs)
                       \<and> i \<notin> set (map id_col xs))
                 \<and> response (put_todo ident' (JBool c) e' (run ?d1 later))
                     = Responded 404 (ErrorBody NotFound)
                 \<and> response (delete_todo ident' e' (run ?d1 later))
                     = Responded 404 (ErrorBody NotFound))"
  proof (intro allI)
    fix later e' ident' c
    let ?d2 = "run ?d1 later"
    have n: "i \<notin> set (map id_col (rows ?d2))"
      using gone_run [OF ok1 g, of later] by (simp add: gone_def)
    have "set (map id_col (sort_key id_col (rows ?d2))) = set (map id_col (rows ?d2))"
      by simp
    then have l: "i \<notin> set (map id_col (sort_key id_col (rows ?d2)))" using n by blast
    show "i \<notin> set (map id_col (rows ?d2))
            \<and> (connect_ok e' \<and> query_ok e' \<and> parseInt ident' = Some i \<longrightarrow>
                 (\<exists>xs. response (get_todos e' ?d2) = Responded 200 (TodoListBody xs)
                       \<and> i \<notin> set (map id_col xs))
                 \<and> response (put_todo ident' (JBool c) e' ?d2) = Responded 404 (ErrorBody NotFound)
                 \<and> response (delete_todo ident' e' ?d2) = Responded 404 (ErrorBody NotFound))"
      using n l ir put_todo_None_404 [of ident' i e' ?d2 c]
      by (simp add: get_todos_ok delete_todo_ok)
  qed
next
  assume a: "parseInt ident = Some i \<and> \<not> int4_range i"
  then show "response (delete_todo ident e d) = Responded 500 (ErrorBody InternalError)"
    and "db_after (delete_todo ident e d) = d"
    using delete_todo_out_of_range [of ident i e d] by simp_all
qed

theorem delete_contract_witness:
  "parseInt (js ''1'') = Some 1 \<and> int4_range 1 \<and> connect_ok healthy \<and> query_ok healthy
   \<and> 1 \<in> set (map id_col (rows (run empty_db [(healthy, PostTodos (JStr (js ''buy milk'')))])))
   \<and> response (delete_todo (js ''1'') healthy (run empty_db [(healthy, PostTodos (JStr (js ''buy milk'')))]))
       = Responded 200 (MessageBody Deleted)
   \<and> rows (db_after (delete_todo (js ''1'') healthy
        (run empty_db [(healthy, PostTodos (JStr (js ''buy milk'')))]))) = []
   \<and> response (delete_todo (js ''1'') healthy
        (run (db_after (delete_todo (js ''1'') healthy
                (run empty_db [(healthy, PostTodos (JStr (js ''buy milk'')))])))
             [(healthy, PostTodos (JStr (js ''walk'')))]))
       = Responded 404 (ErrorBody NotFound)
   \<and> response (delete_todo (js ''1'') healthy empty_db) = Responded 404 (ErrorBody NotFound)"
proof -
  let ?before = "[(healthy, PostTodos (JStr (js ''buy milk'')))]"
  have p: "parseInt (js ''1'') = Some 1" by (simp add: js_eval)
  have r: "int4_range 1" by (simp add: int4_range_def)
  have h: "connect_ok healthy" "query_ok healthy" by (simp_all add: healthy_def)
  have m: "1 \<in> set (map id_col (rows (run empty_db ?before)))" by code_simp
  have f: "filter (\<lambda>r. id_col r \<noteq> 1) (rows (run empty_db ?before)) = []" by code_simp
  have e: "1 \<notin> set (map id_col (rows empty_db))" by (simp add: empty_db_def)
  have "rows (db_after (delete_todo (js ''1'') healthy (run empty_db ?before))) = []"
    using delete_contract [of "js ''1''" 1 healthy "run empty_db ?before" ?before] p r h m f
    by simp
  then show ?thesis
    using delete_contract [of "js ''1''" 1 healthy empty_db ?before]
      delete_contract [of "js ''1''" 1 healthy "run empty_db ?before" ?before] p r h m e by blast
qed

text \<open>
  As the claim is stated it fails: the identifier \<open>2147483648\<close> is read by
  \<^verbatim>\<open>parseInt\<close>, no row has that id, the store is reachable, and the answer is
  500, not 404.
\<close>

theorem delete_out_of_range_counterexample:
  "parseInt (js ''2147483648'') = Some 2147483648
   \<and> 2147483648 \<notin> set (map id_col (rows empty_db))
   \<and> connect_ok healthy \<and> query_ok healthy
   \<and> response (delete_todo (js ''2147483648'') healthy empty_db)
       = Responded 500 (ErrorBody InternalError)"
  by (simp add: js_eval healthy_def empty_db_def int4_range_def
        delete_todo_def with_client_def client_query_def sql_delete_def)

section \<open>Listing\<close>

lemma step_count:
  assumes "\<not> is_delete (snd rq)"
  shows "length (rows (db_after (handle rq d)))
           = length (rows d) + (if status_code (response (handle rq d)) = Some 201 then 1 else 0)"
proof (cases rq)
  case (Pair e r)
  show ?thesis
  proof (cases r)
    case GetTodos
    then show ?thesis using Pair
      by (auto simp: get_todos_def with_client_def client_query_def sql_select_all_def Let_def)
  next
    case (PostTodos v)
    show ?thesis
    proof (cases v)
      case (JStr t)
      then show ?thesis using Pair PostTodos
        by (cases "varchar255 (code_points t)")
           (auto simp: post_todos_def with_client_def client_query_def sql_insert_def Let_def)
    qed (simp_all add: Pair PostTodos post_todos_def)
  next
    case (PutTodo ident completed)
    then show ?thesis using Pair
      by (cases completed; cases "parseInt ident")
         (auto simp: put_todo_def with_client_def client_query_def sql_update_def)
  next
    case (DeleteTodo ident)
    then show ?thesis using assms Pair by simp
  qed
qed

lemma run_count:
  "\<forall>rq\<in>set reqs. \<not> is_delete (snd rq) \<Longrightarrow>
   length (rows (run d reqs)) = length (rows d) + created d reqs"
proof (induction reqs arbitrary: d)
  case Nil
  show ?case by simp
next
  case (Cons rq reqs)
  have "length (rows (run (db_after (handle rq d)) reqs))
          = length (rows (db_after (handle rq d))) + created (db_after (handle rq d)) reqs"
    using Cons by simp
  then show ?case using step_count [of rq d] Cons.prems by simp
qed

lemma listing_strictly_ascending:
  assumes "table_ok d"
  shows "sorted_wrt (<) (map id_col (sort_key id_col (rows d)))"
proof -
  have "mset (map id_col (sort_key id_col (rows d))) = mset (map id_col (rows d))"
    by simp
  then have "distinct (map id_col (sort_key id_col (rows d)))"
    using assms mset_eq_imp_distinct_iff unfolding table_ok_def by blast
  moreover have "sorted (map id_col (sort_key id_col (rows d)))"
    by (rule sorted_sort_key)
  ultimately show ?thesis by (simp add: strict_sorted_iff)
qed

text \<open>
  Claim C5. With the store answering, the list endpoint answers 200 with a list
  (never anything else): the rows of the table in ascending order of id, the
  table itself unchanged; for the empty table the empty list. After a run from
  the empty table without delete requests, the list has as many items as requests
  were answered 201, in strictly ascending order of id.
\<close>

theorem list_contract:
  "(connect_ok e \<and> query_ok e \<longrightarrow>
      (\<exists>xs. response (get_todos e d) = Responded 200 (TodoListBody xs)
         \<and> sorted (map id_col xs) \<and> mset xs = mset (rows d))
      \<and> db_after (get_todos e d) = d
      \<and> response (get_todos e empty_db) = Responded 200 (TodoListBody []))
   \<and> (connect_ok e \<and> query_ok e \<and> (\<forall>rq\<in>set reqs. \<not> is_delete (snd rq)) \<longrightarrow>
      (\<exists>xs. response (get_todos e (run empty_db reqs)) = Responded 200 (TodoListBody xs)
         \<and> length xs = created empty_db reqs
         \<and> sorted_wrt (<) (map id_col xs)))"
proof (intro conjI impI)
  assume h: "connect_ok e \<and> query_ok e"
  show "\<exists>xs. response (get_todos e d) = Responded 200 (TodoListBody xs)
         \<and> sorted (map id_col xs) \<and> mset xs = mset (rows d)"
    using h by (simp add: get_todos_ok sorted_sort_key)
  show "db_after (get_todos e d) = d" using h by (simp add: get_todos_ok)
  show "response (get_todos e empty_db) = Responded 200 (TodoListBody [])"
    using h by (simp add: get_todos_ok empty_db_def)
next
  let ?d = "run empty_db reqs"
  assume h: "connect_ok e \<and> query_ok e \<and> (\<forall>rq\<in>set reqs. \<not> is_delete (snd rq))"
  then have "length (rows ?d) = created empty_db reqs"
    using run_count [of reqs empty_db] by (simp add: empty_db_def)
  moreover have "sorted_wrt (<) (map id_col (sort_key id_col (rows ?d)))"
    by (rule listing_strictly_ascending [OF table_ok_run [OF table_ok_empty]])
  ultimately show "\<exists>xs. response (get_todos e ?d) = Responded 200 (TodoListBody xs)
         \<and> length xs = created empty_db reqs \<and> sorted_wrt (<) (map id_col xs)"
    using h by (simp add: get_todos_ok)
qed

theorem list_contract_witness:
  "connect_ok healthy \<and> query_ok healthy
   \<and> list_all (\<lambda>rq. \<not> is_delete (snd rq))
        [(healthy, PostTodos (JStr (js ''a''))), (healthy, PostTodos (JStr (js ''b'')))]
   \<and> (\<exists>xs. response (get_todos healthy
              (run empty_db [(healthy, PostTodos (JStr (js ''a''))), (healthy, PostTodos (JStr (js ''b'')))]))
            = Responded 200 (TodoListBody xs)
          \<and> length xs = 2 \<and> sorted_wrt (<) (map id_col xs))
   \<and> response (get_todos healthy empty_db) = Responded 200 (TodoListBody [])"
proof -
  let ?reqs = "[(healthy, PostTodos (JStr (js ''a''))), (healthy, PostTodos (JStr (js ''b'')))]"
  have h: "connect_ok healthy" "query_ok healthy" by (simp_all add: healthy_def)
  have n: "\<forall>rq\<in>set ?reqs. \<not> is_delete (snd rq)" by simp
  have c: "created empty_db ?reqs = 2" by code_simp
  show ?thesis
    using list_contract [of healthy empty_db ?reqs] h n c by simp
qed

section \<open>Scenarios\<close>

text \<open>
  The scenarios of the specification: create, complete, delete, list; an update on
  the empty table; a create with the empty text.
\<close>

lemma scenario_buy_milk:
  "response (handle (healthy, PostTodos (JStr (js ''buy milk''))) empty_db)
     = Responded 201 (TodoBody \<lparr>id_int4 = 1, text_col = js ''buy milk'', completed_col = False\<rparr>)
   \<and> response (handle (healthy, PutTodo (js ''1'') (JBool True))
        (run empty_db [(healthy, PostTodos (JStr (js ''buy milk'')))]))
     = Responded 200 (TodoBody \<lparr>id_int4 = 1, text_col = js ''buy milk'', completed_col = True\<rparr>)
   \<and> response (handle (healthy, DeleteTodo (js ''1''))
        (run empty_db [(healthy, PostTodos (JStr (js ''buy milk''))),
                       (healthy, PutTodo (js ''1'') (JBool True))]))
     = Responded 200 (MessageBody Deleted)
   \<and> response (handle (healthy, GetTodos)
        (run empty_db [(healthy, PostTodos (JStr (js ''buy milk''))),
                       (healthy, PutTodo (js ''1'') (JBool True)),
                       (healthy, DeleteTodo (js ''1''))]))
     = Responded 200 (TodoListBody [])
   \<and> response (handle (healthy, PutTodo (js ''999'') (JBool True)) empty_db)
     = Responded 404 (ErrorBody NotFound)
   \<and> response (handle (healthy, PostTodos (JStr [])) empty_db)
     = Responded 400 (ErrorBody EmptyText)"
  by code_simp

section \<open>The client's list fetch\<close>

text \<open>
  Claim C8. After \<^verbatim>\<open>fetchTodos\<close>: when the request succeeded, the list is the
  response data exactly when the data is an array, and then no error is set; data
  that is not an array leaves the list empty and the format error set; a failed
  request (no response, or a status outside 200 to 299) leaves the list empty and the
  load error set. The pending input text is not touched.
\<close>

theorem fetchTodos_contract:
  "(\<forall>data. axios_get r = Some data \<longrightarrow>
      (JArr (todos (fetchTodos r s)) = data \<longleftrightarrow> (\<exists>xs. data = JArr xs))
      \<and> ((\<exists>xs. data = JArr xs) \<longrightarrow> error (fetchTodos r s) = None)
      \<and> ((\<forall>xs. data \<noteq> JArr xs) \<longrightarrow>
            todos (fetchTodos r s) = [] \<and> error (fetchTodos r s) = Some BadFormat))
   \<and> (axios_get r = None \<longrightarrow>
        todos (fetchTodos r s) = [] \<and> error (fetchTodos r s) = Some LoadFailed)
   \<and> newTodoText (fetchTodos r s) = newTodoText s"
  by (auto simp: fetchTodos_def Let_def split: option.splits jsval.splits)

theorem fetchTodos_contract_witness:
  "todos (fetchTodos (HttpResponse 200 (JArr [JNull])) \<lparr>todos = [], newTodoText = [], error = None\<rparr>) = [JNull]
   \<and> todos (fetchTodos (HttpResponse 200 (JStr [])) \<lparr>todos = [JNull], newTodoText = [], error = None\<rparr>) = []
   \<and> error (fetchTodos (HttpResponse 200 (JStr [])) \<lparr>todos = [JNull], newTodoText = [], error = None\<rparr>) = Some BadFormat
   \<and> todos (fetchTodos (HttpResponse 500 (JArr [JNull])) \<lparr>todos = [JNull], newTodoText = [], error = None\<rparr>) = []
   \<and> todos (fetchTodos NetworkError \<lparr>todos = [JNull], newTodoText = [], error = None\<rparr>) = []
   \<and> error (fetchTodos NetworkError \<lparr>todos = [JNull], newTodoText = [], error = None\<rparr>) = Some LoadFailed"
  using fetchTodos_contract [of "HttpResponse 200 (JArr [JNull])" "\<lparr>todos = [], newTodoText = [], error = None\<rparr>"]
    fetchTodos_contract [of "HttpResponse 200 (JStr [])" "\<lparr>todos = [JNull], newTodoText = [], error = None\<rparr>"]
    fetchTodos_contract [of "HttpResponse 500 (JArr [JNull])" "\<lparr>todos = [JNull], newTodoText = [], error = None\<rparr>"]
    fetchTodos_contract [of NetworkError "\<lparr>todos = [JNull], newTodoText = [], error = None\<rparr>"]
  by (simp add: axios_get_def)

end
